theory Spec2Isabelle
  imports Main "HOL-Library.Sublist"
begin

section \<open>The data model (types/message.ts)\<close>

text \<open>
  A \<open>Message\<close> is a \<open>TextMessage\<close>: the fields of \<open>BaseMessage\<close> plus \<open>type\<close>,
  \<open>content\<close> and the optional \<open>sources\<close> and \<open>cached\<close>. An optional field that is
  left out is \<open>None\<close>. The field \<open>id\<close> is called \<open>msg_id\<close> here and \<open>type\<close> is
  \<open>msg_type\<close>; the fields of a source record carry the prefix \<open>src_\<close>. Texts are
  only stored, concatenated and compared with the empty string, so a \<open>string\<close>
  stands for a JavaScript string.
\<close>

datatype MessageRole = User | Assistant

datatype MessageType = Text

text \<open>
  A JavaScript \<open>Date\<close>. \<open>DateAt t\<close> is the value of \<open>new Date()\<close> when the clock
  reads \<open>t\<close> milliseconds; \<open>DateParse str\<close> is the value of \<open>new Date(str)\<close>, the
  instant the string denotes (the invalid date when it denotes none).
\<close>

datatype Date = DateAt int | DateParse string

record SourceRef =
  src_id :: string
  src_source :: string
  src_title :: string

record Message =
  msg_id :: string
  role :: MessageRole
  msg_type :: MessageType
  content :: string
  timestamp :: Date
  sources :: "SourceRef list option"
  cached :: "bool option"

section \<open>What can be thrown\<close>

text \<open>
  A thrown JavaScript value, as far as the two catch clauses of the program inspect it:
  \<open>ErrorObject name message\<close> is an \<open>Error\<close> or one of its subclasses (\<open>TypeError\<close>,
  \<open>SyntaxError\<close>), \<open>DOMException name message\<close> is a \<open>DOMException\<close> (whose prototype
  inherits from \<open>Error.prototype\<close>), and \<open>OtherValue\<close> is any value that is not an
  \<open>Error\<close> instance.
\<close>

datatype thrown =
    ErrorObject (name: string) (message: string)
  | DOMException (name: string) (message: string)
  | OtherValue

fun instanceof_Error :: "thrown \<Rightarrow> bool" where
  "instanceof_Error (ErrorObject n m) = True"
| "instanceof_Error (DOMException n m) = True"
| "instanceof_Error OtherValue = False"

fun instanceof_DOMException :: "thrown \<Rightarrow> bool" where
  "instanceof_DOMException (DOMException n m) = True"
| "instanceof_DOMException (ErrorObject n m) = False"
| "instanceof_DOMException OtherValue = False"

text \<open>\<open>new Error(msg)\<close>.\<close>

definition new_Error :: "string \<Rightarrow> thrown" where
  "new_Error msg = ErrorObject ''Error'' msg"

section \<open>try / catch / finally\<close>

text \<open>
  A statement block is a function from the state to an outcome and a new state; the
  outcome is \<open>Inl e\<close> when the block throws \<open>e\<close> and \<open>Inr v\<close> when it completes with
  \<open>v\<close>. The \<open>finally\<close> block runs on every path; when it completes normally the
  outcome of the \<open>try\<close> or \<open>catch\<close> block stands.
\<close>

type_synonym ('s, 'a) block = "'s \<Rightarrow> (thrown + 'a) \<times> 's"

definition and_finally :: "(thrown + 'a) \<times> 's \<Rightarrow> ('s, unit) block \<Rightarrow> (thrown + 'a) \<times> 's" where
  "and_finally r fin =
     (case fin (snd r) of
        (Inl e, s') \<Rightarrow> (Inl e, s')
      | (Inr u, s') \<Rightarrow> (fst r, s'))"

definition try_catch_finally ::
  "('s, 'a) block \<Rightarrow> (thrown \<Rightarrow> ('s, 'a) block) \<Rightarrow> ('s, unit) block \<Rightarrow> ('s, 'a) block" where
  "try_catch_finally body handler fin s =
     (case body s of
        (Inr v, s1) \<Rightarrow> and_finally (Inr v, s1) fin
      | (Inl e, s1) \<Rightarrow> and_finally (handler e s1) fin)"

section \<open>The session controller (hooks/use-chat.ts)\<close>

text \<open>The three \<open>useState\<close> cells of \<open>useChat\<close>.\<close>

record chat_state =
  messages :: "Message list"
  isLoading :: bool
  error :: "string option"

definition initial_state :: chat_state where
  "initial_state = \<lparr>messages = [], isLoading = False, error = None\<rparr>"

text \<open>
  The setters. \<open>setMessages\<close> is always called with an updater function, which React
  applies to the stored list; the other two are called with a value.
\<close>

definition setMessages :: "(Message list \<Rightarrow> Message list) \<Rightarrow> chat_state \<Rightarrow> chat_state" where
  "setMessages f s = s\<lparr>messages := f (messages s)\<rparr>"

definition setIsLoading :: "bool \<Rightarrow> chat_state \<Rightarrow> chat_state" where
  "setIsLoading b s = s\<lparr>isLoading := b\<rparr>"

definition setError :: "string option \<Rightarrow> chat_state \<Rightarrow> chat_state" where
  "setError e s = s\<lparr>error := e\<rparr>"

text \<open>One entry of the history sent to the backend: \<open>{role, content}\<close>.\<close>

record HistoryEntry =
  h_role :: MessageRole
  h_content :: string

definition history_of :: "Message list \<Rightarrow> HistoryEntry list" where
  "history_of ms = map (\<lambda>m. \<lparr>h_role = role m, h_content = content m\<rparr>) ms"

text \<open>The payload of a successful \<open>/chat\<close> call (\<open>ChatResponse\<close> in the API client).\<close>

record ChatResponse =
  response :: string
  res_sources :: "SourceRef list"
  res_cached :: bool
  res_timestamp :: string

text \<open>
  \<open>sendMessage\<close> is an async function: it runs up to \<open>await chatAPI.sendMessage(...)\<close>
  when it is called and resumes when that promise settles. \<open>sendMessage_begin\<close> is the
  part before the suspension. Its first argument is the \<open>messages\<close> of the closure, the
  list of the render in which this \<open>sendMessage\<close> was created; \<open>uid\<close> is what
  \<open>crypto.randomUUID()\<close> returns and \<open>now\<close> what the clock reads. It returns the new
  state and the arguments it passes to \<open>chatAPI.sendMessage\<close>. Nothing between \<open>try {\<close>
  and the \<open>await\<close> can throw, so the \<open>try\<close> block is entered in the second part.
\<close>

definition userMessage :: "string \<Rightarrow> string \<Rightarrow> int \<Rightarrow> Message" where
  "userMessage content' uid now =
     \<lparr>msg_id = uid, role = User, msg_type = Text, content = content',
      timestamp = DateAt now, sources = None, cached = None\<rparr>"

definition sendMessage_begin ::
  "Message list \<Rightarrow> string \<Rightarrow> string \<Rightarrow> int \<Rightarrow> chat_state
     \<Rightarrow> chat_state \<times> (string \<times> HistoryEntry list)" where
  "sendMessage_begin closure_messages content' uid now s =
     (let s1 = setMessages (\<lambda>prev. prev @ [userMessage content' uid now]) s;
          s2 = setIsLoading True s1;
          s3 = setError None s2;
          chatHistory = history_of closure_messages
      in (s3, (content', chatHistory)))"

text \<open>
  \<open>sendMessage_resume\<close> is the part after the suspension: the rest of the \<open>try\<close> block,
  the \<open>catch\<close> clause and the \<open>finally\<close> clause. \<open>settled\<close> is how the promise
  settled: \<open>Inl err\<close> rejected, \<open>Inr result\<close> fulfilled.
\<close>

definition assistantMessage :: "ChatResponse \<Rightarrow> string \<Rightarrow> Message" where
  "assistantMessage result uid =
     \<lparr>msg_id = uid, role = Assistant, msg_type = Text, content = response result,
      timestamp = DateParse (res_timestamp result),
      sources = Some (res_sources result), cached = Some (res_cached result)\<rparr>"

definition errorMessage :: "string \<Rightarrow> string \<Rightarrow> int \<Rightarrow> Message" where
  "errorMessage errorMsg uid now =
     \<lparr>msg_id = uid, role = Assistant, msg_type = Text,
      content = ''Something went wrong: '' @ errorMsg,
      timestamp = DateAt now, sources = None, cached = None\<rparr>"

definition sendMessage_try :: "thrown + ChatResponse \<Rightarrow> string \<Rightarrow> (chat_state, unit) block" where
  "sendMessage_try settled uid s =
     (case settled of
        Inl err \<Rightarrow> (Inl err, s)
      | Inr result \<Rightarrow> (Inr (), setMessages (\<lambda>prev. prev @ [assistantMessage result uid]) s))"

definition sendMessage_catch :: "string \<Rightarrow> int \<Rightarrow> thrown \<Rightarrow> (chat_state, unit) block" where
  "sendMessage_catch uid now err s =
     (let errorMsg = (if instanceof_Error err then message err else ''An error occurred'');
          s1 = setError (Some errorMsg) s;
          s2 = setMessages (\<lambda>prev. prev @ [errorMessage errorMsg uid now]) s1
      in (Inr (), s2))"

definition sendMessage_finally :: "(chat_state, unit) block" where
  "sendMessage_finally s = (Inr (), setIsLoading False s)"

definition sendMessage_resume ::
  "thrown + ChatResponse \<Rightarrow> string \<Rightarrow> int \<Rightarrow> (chat_state, unit) block" where
  "sendMessage_resume settled uid now =
     try_catch_finally (sendMessage_try settled uid) (sendMessage_catch uid now)
       sendMessage_finally"

definition clearChat :: "chat_state \<Rightarrow> chat_state" where
  "clearChat s = setError None (setMessages (\<lambda>prev. []) s)"

text \<open>
  The hook seen from outside: a call of \<open>sendMessage\<close> (on a closure whose \<open>messages\<close>
  are given), the settlement of a request, a call of \<open>clearChat\<close>. The hook itself
  accepts them in any order.
\<close>

datatype hook_event =
    Call_sendMessage "Message list" string string int
  | Settle "thrown + ChatResponse" string int
  | Call_clearChat

fun hook_step :: "hook_event \<Rightarrow> chat_state \<Rightarrow> chat_state" where
  "hook_step (Call_sendMessage cm c uid now) s = fst (sendMessage_begin cm c uid now s)"
| "hook_step (Settle settled uid now) s = snd (sendMessage_resume settled uid now s)"
| "hook_step Call_clearChat s = clearChat s"

definition hook_run :: "hook_event list \<Rightarrow> chat_state \<Rightarrow> chat_state" where
  "hook_run evs s = fold hook_step evs s"

section \<open>The transport client (lib/api-client.ts)\<close>

text \<open>Template literals print \<open>response.status\<close>, an integer, in decimal.\<close>

fun string_of_nat :: "nat \<Rightarrow> string" where
  "string_of_nat n =
     (if n < 10 then [''0123456789'' ! n]
      else string_of_nat (n div 10) @ [''0123456789'' ! (n mod 10)])"

declare string_of_nat.simps [simp del]

record ChatRequest =
  req_message :: string
  chat_history :: "HistoryEntry list option"

text \<open>
  The body of a non-success response after \<open>response.json()\<close> parsed it, as far as
  the code looks at it. The code reads \<open>err.detail\<close>, tests it for truthiness and
  passes it to \<open>new Error\<close>, which converts it to a string. \<open>JsonNull\<close> is the body
  \<open>null\<close>, on which reading a property throws a \<open>TypeError\<close>. For every other
  value: \<open>NoDetail\<close> when it has no property \<open>detail\<close>, \<open>StringDetail str\<close> when
  \<open>detail\<close> is the string \<open>str\<close>, and \<open>OtherDetail truthy str\<close> when \<open>detail\<close> is any
  other value, given by its truthiness and its conversion to a string.
\<close>

datatype detail = NoDetail | StringDetail string | OtherDetail bool string

datatype error_body = JsonNull | JsonValue detail

text \<open>
  What \<open>fetch\<close> resolves with: the status line and headers have arrived, the body
  is still to be read. \<open>body_ends\<close> is the turn, in milliseconds after the call, in
  which the read that \<open>response.json()\<close> starts would end, \<open>None\<close> when it would never
  end. \<open>json_if_error\<close> and \<open>json_if_ok\<close> are how the promise of \<open>response.json()\<close>
  settles when that read ends: \<open>json_if_error\<close> as the branch for a non-success
  status reads it (\<open>None\<close> when the promise rejects, as for a body that is not JSON;
  the code replaces every rejection by the same object), \<open>json_if_ok\<close> as the success
  path returns it, which TypeScript types as \<open>ChatResponse\<close> without a check.
\<close>

record Response =
  status :: nat
  body_ends :: "nat option"
  json_if_error :: "error_body option"
  json_if_ok :: "thrown + ChatResponse"

definition ok :: "Response \<Rightarrow> bool" where
  "ok r = (200 \<le> status r \<and> status r \<le> 299)"

text \<open>
  The network as one call meets it: \<open>Settles t r\<close> when the \<open>fetch\<close> promise would
  settle with \<open>r\<close> (\<open>Inl\<close> rejected, \<open>Inr\<close> resolved with a response) in the event
  loop's turn \<open>t\<close> milliseconds after the call, \<open>Never\<close> when it would not settle by
  itself. \<open>fetch\<close> is given the signal of an \<open>AbortController\<close> that a timer aborts
  after \<open>deadline\<close> milliseconds; an aborted \<open>fetch\<close> rejects with the \<open>AbortError\<close>
  \<open>DOMException\<close> (its message differs between browsers and is never read). The
  timer is set before \<open>fetch\<close> is called, and a settlement in the timer's own turn
  counts as too late.
\<close>

datatype network = Settles nat "thrown + Response" | Never

definition AbortError :: thrown where
  "AbortError = DOMException ''AbortError'' ''signal is aborted without reason''"

definition fetch :: "network \<Rightarrow> nat \<Rightarrow> thrown + Response" where
  "fetch net deadline =
     (case net of
        Never \<Rightarrow> Inl AbortError
      | Settles t r \<Rightarrow> if t < deadline then r else Inl AbortError)"

definition timeout_ms :: nat where
  "timeout_ms = 30000"

text \<open>
  \<open>await response.json()\<close> in the branch for a non-success status, where the timer is
  still armed: the promise rejects (\<open>None\<close>) when the timer aborts the read before it
  ends, and settles as the body says otherwise.
\<close>

definition await_error_json :: "Response \<Rightarrow> nat \<Rightarrow> error_body option" where
  "await_error_json res deadline =
     (case body_ends res of
        None \<Rightarrow> None
      | Some tb \<Rightarrow> if tb < deadline then json_if_error res else None)"

text \<open>
  The promise \<open>response.json()\<close> that the success path returns without awaiting it.
  The \<open>finally\<close> clause clears the timer in the same turn, so nothing aborts this
  read: the promise settles when the read ends and stays pending (\<open>None\<close>) when it
  never ends.
\<close>

definition returned_json :: "Response \<Rightarrow> (thrown + ChatResponse) option" where
  "returned_json res =
     (case body_ends res of
        None \<Rightarrow> None
      | Some tb \<Rightarrow> Some (json_if_ok res))"

text \<open>\<open>err.detail || fallback\<close>, converted to the message of the new \<open>Error\<close>.\<close>

fun detail_or :: "detail \<Rightarrow> string \<Rightarrow> string" where
  "detail_or NoDetail fallback = fallback"
| "detail_or (StringDetail str) fallback = (if str = [] then fallback else str)"
| "detail_or (OtherDetail truthy str) fallback = (if truthy then str else fallback)"

text \<open>The \<open>TypeError\<close> of reading \<open>detail\<close> from \<open>null\<close> (the message is V8's).\<close>

definition null_TypeError :: thrown where
  "null_TypeError = ErrorObject ''TypeError'' ''Cannot read properties of null (reading 'detail')''"

text \<open>
  The state of the client during one call is its timer: \<open>Some d\<close> while the timeout
  of \<open>d\<close> milliseconds is armed, \<open>None\<close> once \<open>clearTimeout\<close> has run. The \<open>try\<close>
  block completes with the promise \<open>response.json()\<close>, which it returns without
  awaiting it.
\<close>

definition chatAPI_try :: "network \<Rightarrow> (nat option, (thrown + ChatResponse) option) block" where
  "chatAPI_try net timer =
     (case fetch net timeout_ms of
        Inl e \<Rightarrow> (Inl e, timer)
      | Inr res \<Rightarrow>
          if \<not> ok res then
            (let err = (case await_error_json res timeout_ms of
                          None \<Rightarrow> JsonValue (StringDetail (''HTTP '' @ string_of_nat (status res)))
                        | Some body \<Rightarrow> body)
             in case err of
                  JsonNull \<Rightarrow> (Inl null_TypeError, timer)
                | JsonValue d \<Rightarrow>
                    (Inl (new_Error (detail_or d (''API error: '' @ string_of_nat (status res)))),
                     timer))
          else (Inr (returned_json res), timer))"

definition chatAPI_catch :: "thrown \<Rightarrow> (nat option, (thrown + ChatResponse) option) block" where
  "chatAPI_catch err timer =
     (if instanceof_DOMException err \<and> name err = ''AbortError''
      then (Inl (new_Error ''Request timed out. Please try again.''), timer)
      else (Inl err, timer))"

definition chatAPI_finally :: "(nat option, unit) block" where
  "chatAPI_finally timer = (Inr (), None)"

text \<open>
  \<open>ChatAPIClient.sendMessage\<close>. \<open>backend\<close> is how the network answers a request
  body. The result is how the promise of the async function settles (\<open>None\<close>: it
  never settles), and the timer once the function body has run.
\<close>

definition chatAPI_sendMessage ::
  "(ChatRequest \<Rightarrow> network) \<Rightarrow> string \<Rightarrow> HistoryEntry list option
     \<Rightarrow> (thrown + ChatResponse) option \<times> nat option" where
  "chatAPI_sendMessage backend message' chatHistory =
     (let net = backend \<lparr>req_message = message', chat_history = chatHistory\<rparr>
      in case try_catch_finally (chatAPI_try net) chatAPI_catch chatAPI_finally (Some timeout_ms) of
           (Inl e, timer) \<Rightarrow> (Some (Inl e), timer)
         | (Inr promise, timer) \<Rightarrow> (promise, timer))"

text \<open>
  One whole call of the hook's \<open>sendMessage\<close> against a backend, nothing else
  happening meanwhile: \<open>None\<close> when the request never settles, so that the function
  never resumes and the state stays as \<open>sendMessage_begin\<close> left it.
\<close>

definition sendMessage_run ::
  "Message list \<Rightarrow> string \<Rightarrow> string \<Rightarrow> int \<Rightarrow> (ChatRequest \<Rightarrow> network) \<Rightarrow> string \<Rightarrow> int
     \<Rightarrow> chat_state \<Rightarrow> ((thrown + unit) \<times> chat_state) option" where
  "sendMessage_run closure_messages content' uid1 now1 backend uid2 now2 s =
     (let started = sendMessage_begin closure_messages content' uid1 now1 s
      in case fst (chatAPI_sendMessage backend (fst (snd started)) (Some (snd (snd started)))) of
           None \<Rightarrow> None
         | Some settled \<Rightarrow> Some (sendMessage_resume settled uid2 now2 (fst started)))"

section \<open>The user interface (components/chat)\<close>

text \<open>
  The \<open>Chat\<close> component renders the hook's state and hands the closures of that
  render to its children. \<open>ChatInput\<close> calls \<open>sendMessage\<close> unless it is disabled
  (\<open>disabled = isLoading\<close>) or the input is blank; \<open>ChatWelcome\<close> is shown while the log
  is empty and calls \<open>sendMessage\<close> with the text of the prompt clicked; the
  \<open>New Chat\<close> button is shown while the log is not empty, is disabled while
  \<open>isLoading\<close>, and calls \<open>clearChat\<close>. An event the interface does not let through
  changes nothing. \<open>SubmitInput\<close> is the submission of an input that is not blank.
  React renders after every event, so each event meets the closures of the render of
  the current state. \<open>in_flight\<close> counts the requests that have been sent and have
  not settled. \<open>ui_handle\<close> returns the new session and, when the event calls
  \<open>chatAPI.sendMessage\<close>, the arguments of that call.
\<close>

record session =
  hook :: chat_state
  in_flight :: nat

datatype ui_event =
    SubmitInput string string int
  | ClickPrompt string string int
  | ClickNewChat
  | Settled "thrown + ChatResponse" string int

definition initial_session :: session where
  "initial_session = \<lparr>hook = initial_state, in_flight = 0\<rparr>"

definition ui_send ::
  "string \<Rightarrow> string \<Rightarrow> int \<Rightarrow> session \<Rightarrow> session \<times> (string \<times> HistoryEntry list) option" where
  "ui_send c uid now \<sigma> =
     (let started = sendMessage_begin (messages (hook \<sigma>)) c uid now (hook \<sigma>)
      in (\<lparr>hook = fst started, in_flight = Suc (in_flight \<sigma>)\<rparr>, Some (snd started)))"

fun ui_handle :: "ui_event \<Rightarrow> session \<Rightarrow> session \<times> (string \<times> HistoryEntry list) option" where
  "ui_handle (SubmitInput c uid now) \<sigma> =
     (if isLoading (hook \<sigma>) then (\<sigma>, None) else ui_send c uid now \<sigma>)"
| "ui_handle (ClickPrompt c uid now) \<sigma> =
     (if messages (hook \<sigma>) = [] then ui_send c uid now \<sigma> else (\<sigma>, None))"
| "ui_handle ClickNewChat \<sigma> =
     (if messages (hook \<sigma>) = [] then (\<sigma>, None)
      else if isLoading (hook \<sigma>) then (\<sigma>, None)
      else (\<sigma>\<lparr>hook := clearChat (hook \<sigma>)\<rparr>, None))"
| "ui_handle (Settled settled uid now) \<sigma> =
     (if in_flight \<sigma> = 0 then (\<sigma>, None)
      else (\<lparr>hook = snd (sendMessage_resume settled uid now (hook \<sigma>)),
             in_flight = in_flight \<sigma> - 1\<rparr>, None))"

definition ui_step :: "ui_event \<Rightarrow> session \<Rightarrow> session" where
  "ui_step ev \<sigma> = fst (ui_handle ev \<sigma>)"

definition ui_run :: "ui_event list \<Rightarrow> session \<Rightarrow> session" where
  "ui_run evs \<sigma> = fold ui_step evs \<sigma>"

text \<open>
  What holds of the session after every sequence of events the interface lets through:
  a request is in flight exactly while \<open>isLoading\<close> is set, and then the log is not
  empty and the error is absent.
\<close>

definition ui_invariant :: "session \<Rightarrow> bool" where
  "ui_invariant \<sigma> =
     (if isLoading (hook \<sigma>)
      then in_flight \<sigma> = 1 \<and> messages (hook \<sigma>) \<noteq> [] \<and> error (hook \<sigma>) = None
      else in_flight \<sigma> = 0)"

text \<open>An empty log carries no error.\<close>

definition error_needs_log :: "chat_state \<Rightarrow> bool" where
  "error_needs_log s = (if messages s = [] then error s = None else True)"

text \<open>
  A \<open>fetch\<close> as the Fetch standard has it: the promises of \<open>fetch\<close> and of
  \<open>response.json()\<close> reject with \<open>Error\<close> instances only (\<open>TypeError\<close>,
  \<open>SyntaxError\<close>, \<open>DOMException\<close>).
\<close>

fun standard_fetch :: "network \<Rightarrow> bool" where
  "standard_fetch Never = True"
| "standard_fetch (Settles t (Inl e)) = instanceof_Error e"
| "standard_fetch (Settles t (Inr res)) =
     (case json_if_ok res of Inl e \<Rightarrow> instanceof_Error e | Inr payload \<Rightarrow> True)"

text \<open>
  Concrete runs. \<open>first_exchange\<close> is the state after \<open>sendMessage\<close> was called on the
  closure of the first render with the text \<open>a\<close> and its request succeeded. The
  backends: \<open>unparseable_500\<close> and \<open>unparseable_502\<close> answer with that status and a
  body that is not JSON; \<open>plain_404\<close> answers with status 404 and the body \<open>{}\<close>;
  \<open>silent_backend\<close> never answers; \<open>quick_200\<close> answers after 80 milliseconds with
  a payload whose body has been read after 95; \<open>slow_body_500\<close> and
  \<open>slow_body_200\<close> send their status after 5 milliseconds and the end of their
  body after 45 seconds.
\<close>

definition first_exchange :: chat_state where
  "first_exchange =
     snd (sendMessage_resume
            (Inr \<lparr>response = ''hi'', res_sources = [], res_cached = False,
                  res_timestamp = ''2024-01-01T00:00:00Z''\<rparr>) ''id2'' 2
            (fst (sendMessage_begin [] ''a'' ''id1'' 1 initial_state)))"

definition unparseable_500 :: "ChatRequest \<Rightarrow> network" where
  "unparseable_500 req =
     Settles 120 (Inr \<lparr>status = 500, body_ends = Some 130, json_if_error = None,
                      json_if_ok = Inl (ErrorObject ''SyntaxError'' ''Unexpected token <'')\<rparr>)"

definition plain_404 :: "ChatRequest \<Rightarrow> network" where
  "plain_404 req =
     Settles 120 (Inr \<lparr>status = 404, body_ends = Some 130,
                      json_if_error = Some (JsonValue NoDetail),
                      json_if_ok = Inl (ErrorObject ''TypeError'' ''not a ChatResponse'')\<rparr>)"

definition unparseable_502 :: "ChatRequest \<Rightarrow> network" where
  "unparseable_502 req =
     Settles 45 (Inr \<lparr>status = 502, body_ends = Some 50, json_if_error = None,
                     json_if_ok = Inl (ErrorObject ''SyntaxError'' ''Unexpected token <'')\<rparr>)"






section \<open>Basic facts about the controller\<close>

lemma clearChat_eq: "clearChat s = s\<lparr>messages := [], error := None\<rparr>"
  by (simp add: clearChat_def setError_def setMessages_def)

lemma sendMessage_begin_state:
  "fst (sendMessage_begin cm c uid now s) =
     s\<lparr>messages := messages s @ [userMessage c uid now], isLoading := True, error := None\<rparr>"
  by (simp add: sendMessage_begin_def Let_def setError_def setMessages_def setIsLoading_def)

lemma sendMessage_begin_request:
  "snd (sendMessage_begin cm c uid now s) = (c, history_of cm)"
  by (simp add: sendMessage_begin_def Let_def)

lemma sendMessage_resume_success:
  "sendMessage_resume (Inr result) uid now s =
     (Inr (), s\<lparr>messages := messages s @ [assistantMessage result uid], isLoading := False\<rparr>)"
  by (simp add: sendMessage_resume_def try_catch_finally_def and_finally_def sendMessage_try_def
      sendMessage_finally_def setMessages_def setIsLoading_def)

lemma sendMessage_resume_failure:
  "sendMessage_resume (Inl err) uid now s =
     (Inr (), s\<lparr>messages := messages s @
          [errorMessage (if instanceof_Error err then message err else ''An error occurred'') uid now],
        isLoading := False,
        error := Some (if instanceof_Error err then message err else ''An error occurred'')\<rparr>)"
  by (simp add: sendMessage_resume_def try_catch_finally_def and_finally_def sendMessage_try_def
      sendMessage_catch_def sendMessage_finally_def setMessages_def setIsLoading_def setError_def
      Let_def)

lemma hook_step_appends:
  assumes "ev \<noteq> Call_clearChat"
  shows "\<exists>m. messages (hook_step ev s) = messages s @ [m]"
proof (cases ev)
  case (Call_sendMessage cm c uid now)
  then show ?thesis by (simp add: sendMessage_begin_state)
next
  case (Settle settled uid now)
  then show ?thesis
    by (cases settled) (simp_all add: sendMessage_resume_success sendMessage_resume_failure)
next
  case Call_clearChat
  with assms show ?thesis by simp
qed

lemma hook_run_Cons: "hook_run (ev # evs) s = hook_run evs (hook_step ev s)"
  by (simp add: hook_run_def)

lemma hook_run_appends:
  "Call_clearChat \<notin> set evs \<Longrightarrow>
     \<exists>ms. messages (hook_run evs s) = messages s @ ms \<and> length ms = length evs"
proof (induction evs arbitrary: s)
  case Nil
  then show ?case by (simp add: hook_run_def)
next
  case (Cons ev evs)
  from Cons.prems have ne: "ev \<noteq> Call_clearChat" and rest: "Call_clearChat \<notin> set evs"
    by auto
  from hook_step_appends [OF ne] obtain m where m: "messages (hook_step ev s) = messages s @ [m]"
    by blast
  from Cons.IH [OF rest, of "hook_step ev s"] obtain ms
    where ms: "messages (hook_run evs (hook_step ev s)) = messages (hook_step ev s) @ ms"
      and len: "length ms = length evs"
    by blast
  have "messages (hook_run (ev # evs) s) = messages s @ (m # ms)"
    by (simp add: hook_run_Cons ms m)
  moreover have "length (m # ms) = length (ev # evs)"
    by (simp add: len)
  ultimately show ?case by blast
qed

lemma hook_step_error_needs_log:
  assumes "error_needs_log s"
  shows "error_needs_log (hook_step ev s)"
proof (cases ev)
  case (Call_sendMessage cm c uid now)
  then show ?thesis by (simp add: error_needs_log_def sendMessage_begin_state)
next
  case (Settle settled uid now)
  then show ?thesis
    by (cases settled)
       (simp_all add: error_needs_log_def sendMessage_resume_success sendMessage_resume_failure)
next
  case Call_clearChat
  then show ?thesis by (simp add: error_needs_log_def clearChat_eq)
qed

lemma hook_run_error_needs_log: "error_needs_log s \<Longrightarrow> error_needs_log (hook_run evs s)"
  by (induction evs arbitrary: s) (simp_all add: hook_run_def hook_step_error_needs_log)

lemma reachable_empty_log_no_error:
  "messages (hook_run evs initial_state) = [] \<Longrightarrow> error (hook_run evs initial_state) = None"
  using hook_run_error_needs_log [of initial_state evs]
  by (simp add: error_needs_log_def initial_state_def split: if_splits)

section \<open>Basic facts about the transport client\<close>




lemma chatAPI_rejected:
  assumes "backend \<lparr>req_message = msg, chat_history = hist\<rparr> = Settles t (Inr res)"
    and "t < timeout_ms" and "\<not> ok res"
  shows "chatAPI_sendMessage backend msg hist =
           (Some (Inl (case await_error_json res timeout_ms of
                   None \<Rightarrow> new_Error (''HTTP '' @ string_of_nat (status res))
                 | Some JsonNull \<Rightarrow> null_TypeError
                 | Some (JsonValue d) \<Rightarrow>
                     new_Error (detail_or d (''API error: '' @ string_of_nat (status res))))),
            None)"
  using assms
  by (simp add: chatAPI_sendMessage_def try_catch_finally_def and_finally_def chatAPI_try_def
      chatAPI_catch_def chatAPI_finally_def fetch_def new_Error_def null_TypeError_def
      split: option.splits error_body.splits)

lemma chatAPI_failure_is_Error:
  assumes "standard_fetch (backend \<lparr>req_message = msg, chat_history = hist\<rparr>)"
    and "fst (chatAPI_sendMessage backend msg hist) = Some (Inl e)"
  shows "instanceof_Error e"
  using assms
  by (cases "backend \<lparr>req_message = msg, chat_history = hist\<rparr>")
     (auto simp add: chatAPI_sendMessage_def try_catch_finally_def and_finally_def chatAPI_try_def
        chatAPI_catch_def chatAPI_finally_def fetch_def new_Error_def null_TypeError_def
        AbortError_def Let_def returned_json_def
        split: option.splits error_body.splits sum.splits if_splits)

section \<open>Basic facts about the user interface\<close>

lemma ui_step_invariant:
  assumes "ui_invariant \<sigma>"
  shows "ui_invariant (ui_step ev \<sigma>)"
proof (cases ev)
  case (SubmitInput c uid now)
  with assms show ?thesis
    by (simp add: ui_step_def ui_invariant_def ui_send_def Let_def sendMessage_begin_state)
next
  case (ClickPrompt c uid now)
  with assms show ?thesis
    by (simp add: ui_step_def ui_invariant_def ui_send_def Let_def sendMessage_begin_state
        split: if_splits)
next
  case ClickNewChat
  with assms show ?thesis
    by (simp add: ui_step_def ui_invariant_def clearChat_eq split: if_splits)
next
  case (Settled settled uid now)
  with assms show ?thesis
    by (cases settled)
       (simp_all add: ui_step_def ui_invariant_def sendMessage_resume_success
          sendMessage_resume_failure split: if_splits)
qed

lemma ui_handle_request:
  assumes "snd (ui_handle ev \<sigma>) = Some (txt, h)"
  shows "\<exists>uid now. ui_handle ev \<sigma> = ui_send txt uid now \<sigma>"
proof (cases ev)
  case (SubmitInput c uid now)
  with assms show ?thesis
    by (auto simp add: ui_send_def Let_def sendMessage_begin_request split: if_splits)
next
  case (ClickPrompt c uid now)
  with assms show ?thesis
    by (auto simp add: ui_send_def Let_def sendMessage_begin_request split: if_splits)
next
  case ClickNewChat
  with assms show ?thesis by (simp split: if_splits)
next
  case (Settled settled uid now)
  with assms show ?thesis by (simp split: if_splits)
qed

lemma ui_run_invariant: "ui_invariant \<sigma> \<Longrightarrow> ui_invariant (ui_run evs \<sigma>)"
  by (induction evs arbitrary: \<sigma>) (simp_all add: ui_run_def ui_step_invariant)

lemma ui_reachable_invariant: "ui_invariant (ui_run evs initial_session)"
  by (rule ui_run_invariant) (simp add: ui_invariant_def initial_session_def initial_state_def)

section \<open>The claims\<close>

text \<open>
  C1. For every text \<open>c\<close>, on every closure and in every state, the part of
  \<open>sendMessage\<close> that runs before the network call appends exactly one message to the
  log; it has the role \<open>user\<close> and the content \<open>c\<close>. Whatever settles afterwards, in
  any number and any order, the log keeps that message where it is, as long as
  \<open>clearChat\<close> is not called.
\<close>

theorem C1_user_message_appended_and_kept:
  assumes "Call_clearChat \<notin> set evs"
  shows "messages (fst (sendMessage_begin cm c uid now s)) = messages s @ [userMessage c uid now]
       \<and> role (userMessage c uid now) = User
       \<and> content (userMessage c uid now) = c
       \<and> prefix (messages s @ [userMessage c uid now])
            (messages (hook_run evs (fst (sendMessage_begin cm c uid now s))))"
proof -
  let ?s1 = "fst (sendMessage_begin cm c uid now s)"
  have first: "messages ?s1 = messages s @ [userMessage c uid now]"
    by (simp add: sendMessage_begin_state)
  from hook_run_appends [OF assms, of ?s1] obtain ms
    where "messages (hook_run evs ?s1) = messages ?s1 @ ms"
    by blast
  then have "prefix (messages s @ [userMessage c uid now]) (messages (hook_run evs ?s1))"
    by (simp add: first prefix_def)
  with first show ?thesis
    by (simp add: userMessage_def)
qed

theorem C1_witness:
  "Call_clearChat \<notin> set [Settle (Inl (new_Error ''Failed to fetch'')) ''id2'' 2]
   \<and> messages (fst (sendMessage_begin [] ''hello'' ''id1'' 1 initial_state))
       = [userMessage ''hello'' ''id1'' 1]
   \<and> prefix [userMessage ''hello'' ''id1'' 1]
       (messages (hook_run [Settle (Inl (new_Error ''Failed to fetch'')) ''id2'' 2]
          (fst (sendMessage_begin [] ''hello'' ''id1'' 1 initial_state))))"
  using C1_user_message_appended_and_kept
    [of "[Settle (Inl (new_Error ''Failed to fetch'')) ''id2'' 2]" "[]" "''hello''" "''id1''" 1
      initial_state]
  by (simp add: initial_state_def)

text \<open>
  C2. Whenever the application submits a text, the arguments it passes to the
  transport client are that text and the \<open>{role, content}\<close> projection of the log as
  it stood before the step, and the step appends the user message to that log: the
  history is the projection of the new log without its last message. In the hook
  itself the history is the projection of the \<open>messages\<close> of the closure that is
  called, which for the closure of the render of the current state is the log before
  the append.
\<close>

theorem C2_history_excludes_new_message:
  assumes "snd (ui_handle ev \<sigma>) = Some (txt, h)"
  shows "h = history_of (messages (hook \<sigma>))
       \<and> (\<exists>uid now. messages (hook (ui_step ev \<sigma>)) = messages (hook \<sigma>) @ [userMessage txt uid now])
       \<and> h = history_of (butlast (messages (hook (ui_step ev \<sigma>))))
       \<and> snd (sendMessage_begin cm c uid' now' s) = (c, history_of cm)
       \<and> snd (sendMessage_begin (messages s) c uid' now' s) =
           (c, history_of (butlast (messages (fst (sendMessage_begin (messages s) c uid' now' s)))))
       \<and> map h_role (history_of cm) = map role cm
       \<and> map h_content (history_of cm) = map content cm"
proof -
  from ui_handle_request [OF assms] obtain uid now
    where sent: "ui_handle ev \<sigma> = ui_send txt uid now \<sigma>"
    by blast
  with assms have h: "h = history_of (messages (hook \<sigma>))"
    by (simp add: ui_send_def Let_def sendMessage_begin_request)
  from sent have log: "messages (hook (ui_step ev \<sigma>)) = messages (hook \<sigma>) @ [userMessage txt uid now]"
    by (simp add: ui_step_def ui_send_def Let_def sendMessage_begin_state)
  from log have "\<exists>uid now. messages (hook (ui_step ev \<sigma>)) = messages (hook \<sigma>) @ [userMessage txt uid now]"
    by blast
  moreover from h log have "h = history_of (butlast (messages (hook (ui_step ev \<sigma>))))"
    by simp
  ultimately show ?thesis
    using h
    by (simp add: sendMessage_begin_request sendMessage_begin_state history_of_def comp_def)
qed

theorem C2_witness:
  "snd (ui_handle (SubmitInput ''b'' ''id3'' 3) \<lparr>hook = first_exchange, in_flight = 0\<rparr>) =
     Some (''b'', [\<lparr>h_role = User, h_content = ''a''\<rparr>, \<lparr>h_role = Assistant, h_content = ''hi''\<rparr>])
   \<and> [\<lparr>h_role = User, h_content = ''a''\<rparr>, \<lparr>h_role = Assistant, h_content = ''hi''\<rparr>] =
       history_of (messages first_exchange)
   \<and> map content (messages (hook (ui_step (SubmitInput ''b'' ''id3'' 3)
        \<lparr>hook = first_exchange, in_flight = 0\<rparr>))) = [''a'', ''hi'', ''b'']"
proof -
  have log: "messages first_exchange =
      [userMessage ''a'' ''id1'' 1,
       assistantMessage \<lparr>response = ''hi'', res_sources = [], res_cached = False,
         res_timestamp = ''2024-01-01T00:00:00Z''\<rparr> ''id2'']"
    by (simp add: first_exchange_def sendMessage_resume_success sendMessage_begin_state
        initial_state_def)
  have idle: "isLoading first_exchange = False"
    by (simp add: first_exchange_def sendMessage_resume_success sendMessage_begin_state)
  have sent: "snd (ui_handle (SubmitInput ''b'' ''id3'' 3) \<lparr>hook = first_exchange, in_flight = 0\<rparr>) =
      Some (''b'', [\<lparr>h_role = User, h_content = ''a''\<rparr>, \<lparr>h_role = Assistant, h_content = ''hi''\<rparr>])"
    by (simp add: idle log ui_send_def Let_def sendMessage_begin_request history_of_def
        userMessage_def assistantMessage_def)
  have after: "map content (messages (hook (ui_step (SubmitInput ''b'' ''id3'' 3)
        \<lparr>hook = first_exchange, in_flight = 0\<rparr>))) = [''a'', ''hi'', ''b'']"
    by (simp add: ui_step_def idle log ui_send_def Let_def sendMessage_begin_state
        userMessage_def assistantMessage_def)
  show ?thesis
    using C2_history_excludes_new_message [OF sent] sent after
    by simp
qed

text \<open>
  C3. When the request is fulfilled with a payload, the rest of \<open>sendMessage\<close> appends
  exactly one message; it has the role \<open>assistant\<close>, its content is the payload's
  \<open>response\<close>, its \<open>sources\<close> and \<open>cached\<close> are the payload's, and its timestamp is the
  date parsed from the payload's \<open>timestamp\<close>. No error leaves the function. At the end
  of a call of \<open>sendMessage\<close> that succeeds the stored error is absent; in the
  application the error is absent after every settlement with a payload. Submitting
  \<open>hello\<close> on the empty log sends an empty history, and with the payload
  \<open>{response: hi, sources: [], cached: false}\<close> the log ends as the two messages
  user \<open>hello\<close>, assistant \<open>hi\<close>.
\<close>

theorem C3_success_appends_assistant_message:
  "sendMessage_resume (Inr payload) uid now s =
     (Inr (), s\<lparr>messages := messages s @ [assistantMessage payload uid], isLoading := False\<rparr>)
   \<and> role (assistantMessage payload uid) = Assistant
   \<and> content (assistantMessage payload uid) = response payload
   \<and> sources (assistantMessage payload uid) = Some (res_sources payload)
   \<and> cached (assistantMessage payload uid) = Some (res_cached payload)
   \<and> timestamp (assistantMessage payload uid) = DateParse (res_timestamp payload)
   \<and> error (snd (sendMessage_resume (Inr payload) uid now
               (fst (sendMessage_begin cm c uid0 now0 s)))) = None
   \<and> error (hook (ui_step (Settled (Inr payload) uid now) (ui_run evs initial_session))) =
       (if in_flight (ui_run evs initial_session) = 0
        then error (hook (ui_run evs initial_session)) else None)
   \<and> snd (sendMessage_begin [] ''hello'' uid0 now0 initial_state) = (''hello'', [])
   \<and> map (\<lambda>m. (role m, content m))
        (messages (snd (sendMessage_resume
           (Inr \<lparr>response = ''hi'', res_sources = [], res_cached = False,
                 res_timestamp = ''2024-01-01T00:00:00Z''\<rparr>) uid now
           (fst (sendMessage_begin [] ''hello'' uid0 now0 initial_state)))))
       = [(User, ''hello''), (Assistant, ''hi'')]"
proof -
  have "ui_invariant (ui_run evs initial_session)"
    by (rule ui_reachable_invariant)
  then have "error (hook (ui_step (Settled (Inr payload) uid now) (ui_run evs initial_session))) =
      (if in_flight (ui_run evs initial_session) = 0
       then error (hook (ui_run evs initial_session)) else None)"
    by (simp add: ui_step_def ui_invariant_def sendMessage_resume_success split: if_splits)
  then show ?thesis
    by (simp add: sendMessage_resume_success sendMessage_begin_state sendMessage_begin_request
        assistantMessage_def userMessage_def initial_state_def history_of_def)
qed

text \<open>
  C4. Let the transport client fail with \<open>e\<close>, on a \<open>fetch\<close> that rejects with \<open>Error\<close>
  instances only. Then the rest of \<open>sendMessage\<close> appends exactly one message, with
  the role \<open>assistant\<close> and the content \<open>Something went wrong: \<close> followed by the message
  of \<open>e\<close>, stores that message as the error, and completes normally. However the
  request settles, \<open>sendMessage\<close> completes normally.
\<close>

theorem C4_failure_becomes_message:
  assumes "standard_fetch (backend \<lparr>req_message = msg, chat_history = hist\<rparr>)"
    and "fst (chatAPI_sendMessage backend msg hist) = Some (Inl e)"
  shows "sendMessage_resume (Inl e) uid now s =
           (Inr (), s\<lparr>messages := messages s @ [errorMessage (message e) uid now],
                      isLoading := False, error := Some (message e)\<rparr>)
       \<and> role (errorMessage (message e) uid now) = Assistant
       \<and> content (errorMessage (message e) uid now) = ''Something went wrong: '' @ message e
       \<and> fst (sendMessage_resume settled uid' now' s') = Inr ()"
proof -
  have "instanceof_Error e"
    using assms by (rule chatAPI_failure_is_Error)
  moreover have "fst (sendMessage_resume settled uid' now' s') = Inr ()"
    by (cases settled) (simp_all add: sendMessage_resume_success sendMessage_resume_failure)
  ultimately show ?thesis
    by (simp add: sendMessage_resume_failure errorMessage_def)
qed

theorem C4_witness:
  "standard_fetch (plain_404 \<lparr>req_message = ''hello'', chat_history = Some []\<rparr>)
   \<and> fst (chatAPI_sendMessage plain_404 ''hello'' (Some [])) = Some (Inl (new_Error ''API error: 404''))
   \<and> sendMessage_resume (Inl (new_Error ''API error: 404'')) ''id2'' 2 initial_state =
       (Inr (), \<lparr>messages = [errorMessage ''API error: 404'' ''id2'' 2], isLoading = False,
                 error = Some ''API error: 404''\<rparr>)
   \<and> content (errorMessage ''API error: 404'' ''id2'' 2) = ''Something went wrong: API error: 404''"
proof -
  have std: "standard_fetch (plain_404 \<lparr>req_message = ''hello'', chat_history = Some []\<rparr>)"
    by (simp add: plain_404_def)
  have digits: "string_of_nat 404 = ''404''"
    by (simp add: string_of_nat.simps)
  have fails: "fst (chatAPI_sendMessage plain_404 ''hello'' (Some [])) =
      Some (Inl (new_Error ''API error: 404''))"
    by (simp add: chatAPI_rejected [of plain_404 "''hello''" "Some []" 120
          "\<lparr>status = 404, body_ends = Some 130, json_if_error = Some (JsonValue NoDetail),
            json_if_ok = Inl (ErrorObject ''TypeError'' ''not a ChatResponse'')\<rparr>"]
        plain_404_def timeout_ms_def ok_def await_error_json_def digits)
  show ?thesis
    using C4_failure_becomes_message [OF std fails, of "''id2''" 2 initial_state]
    by (simp add: std fails new_Error_def initial_state_def)
qed




text \<open>
  C6, as stated, fails: when the body of a non-success response does not parse, the
  client fails with the message \<open>HTTP\<close> and the status code, not with \<open>API error:\<close>
  and the status code. Here the status is 500 and the body is not JSON.
\<close>

theorem C6_counterexample:
  "fst (chatAPI_sendMessage unparseable_500 ''hello'' (Some [])) = Some (Inl (new_Error ''HTTP 500''))
   \<and> fst (chatAPI_sendMessage unparseable_500 ''hello'' (Some []))
       \<noteq> Some (Inl (new_Error ''API error: 500''))"
proof -
  have digits: "string_of_nat 500 = ''500''"
    by (simp add: string_of_nat.simps)
  have "fst (chatAPI_sendMessage unparseable_500 ''hello'' (Some [])) =
      Some (Inl (new_Error ''HTTP 500''))"
    by (simp add: chatAPI_rejected [of unparseable_500 "''hello''" "Some []" 120
          "\<lparr>status = 500, body_ends = Some 130, json_if_error = None,
            json_if_ok = Inl (ErrorObject ''SyntaxError'' ''Unexpected token <'')\<rparr>"]
        unparseable_500_def timeout_ms_def ok_def await_error_json_def digits)
  then show ?thesis
    by (simp add: new_Error_def)
qed

text \<open>
  C6, amended. When \<open>fetch\<close> resolves in time with a status outside 200 to 299, the
  client reads the body as JSON and fails. If the promise of the body rejects (the
  body is not JSON; also when the timer aborts the read), the message is \<open>HTTP\<close> and
  the status code. If the body parses and carries a truthy \<open>detail\<close>, the message is
  that detail. If it parses and \<open>detail\<close> is missing or falsy, the message is
  \<open>API error:\<close> and the status code. (If it parses to \<open>null\<close>, reading \<open>detail\<close>
  throws a \<open>TypeError\<close>, which is what the client fails with.) A body whose read ends
  before the timer fires is read as it is.
\<close>

theorem C6_rejection_messages:
  assumes "backend \<lparr>req_message = msg, chat_history = hist\<rparr> = Settles t (Inr res)"
    and "t < timeout_ms" and "\<not> ok res"
  shows "fst (chatAPI_sendMessage backend msg hist) =
           Some (Inl (case await_error_json res timeout_ms of
                  None \<Rightarrow> new_Error (''HTTP '' @ string_of_nat (status res))
                | Some JsonNull \<Rightarrow> null_TypeError
                | Some (JsonValue NoDetail) \<Rightarrow>
                    new_Error (''API error: '' @ string_of_nat (status res))
                | Some (JsonValue (StringDetail str)) \<Rightarrow>
                    new_Error (if str = [] then ''API error: '' @ string_of_nat (status res) else str)
                | Some (JsonValue (OtherDetail truthy str)) \<Rightarrow>
                    new_Error (if truthy then str else ''API error: '' @ string_of_nat (status res))))
       \<and> await_error_json res timeout_ms =
           (case body_ends res of
              None \<Rightarrow> None
            | Some tb \<Rightarrow> if tb < 30000 then json_if_error res else None)"
  using assms chatAPI_rejected [of backend msg hist t res]
  by (simp add: await_error_json_def timeout_ms_def
      split: option.splits error_body.splits detail.splits)

theorem C6_witness:
  "unparseable_502 \<lparr>req_message = ''hello'', chat_history = Some []\<rparr> =
     Settles 45 (Inr \<lparr>status = 502, body_ends = Some 50, json_if_error = None,
                     json_if_ok = Inl (ErrorObject ''SyntaxError'' ''Unexpected token <'')\<rparr>)
   \<and> 45 < timeout_ms
   \<and> \<not> ok \<lparr>status = 502, body_ends = Some 50, json_if_error = None,
             json_if_ok = Inl (ErrorObject ''SyntaxError'' ''Unexpected token <'')\<rparr>
   \<and> fst (chatAPI_sendMessage unparseable_502 ''hello'' (Some [])) =
       Some (Inl (new_Error ''HTTP 502''))"
proof -
  let ?res = "\<lparr>status = 502, body_ends = Some 50, json_if_error = None,
               json_if_ok = Inl (ErrorObject ''SyntaxError'' ''Unexpected token <'')\<rparr>"
  have a: "unparseable_502 \<lparr>req_message = ''hello'', chat_history = Some []\<rparr> = Settles 45 (Inr ?res)"
    by (simp add: unparseable_502_def)
  have b: "45 < timeout_ms"
    by (simp add: timeout_ms_def)
  have c: "\<not> ok ?res"
    by (simp add: ok_def)
  have digits: "string_of_nat 502 = ''502''"
    by (simp add: string_of_nat.simps)
  show ?thesis
    using a b c
      C6_rejection_messages [of unparseable_502 "''hello''" "Some []" 45 ?res]
    by (simp add: digits)
qed

text \<open>
  C7. Every operation of the hook other than \<open>clearChat\<close> leaves the log it finds as a
  prefix of the log it leaves, one message longer: over any sequence of calls of
  \<open>sendMessage\<close> and settlements the old log is an unchanged prefix of the new one.
  \<open>clearChat\<close> leaves the empty log.
\<close>

theorem C7_log_append_only:
  assumes "Call_clearChat \<notin> set evs"
  shows "prefix (messages s) (messages (hook_run evs s))
       \<and> length (messages (hook_run evs s)) = length (messages s) + length evs
       \<and> messages (hook_step Call_clearChat s') = []"
proof -
  from hook_run_appends [OF assms, of s] obtain ms
    where "messages (hook_run evs s) = messages s @ ms" and "length ms = length evs"
    by blast
  then show ?thesis
    by (simp add: prefix_def clearChat_eq)
qed

theorem C7_witness:
  "Call_clearChat \<notin> set [Call_sendMessage (messages first_exchange) ''b'' ''id3'' 3,
                           Settle (Inl (new_Error ''Failed to fetch'')) ''id4'' 4]
   \<and> prefix (messages first_exchange)
       (messages (hook_run [Call_sendMessage (messages first_exchange) ''b'' ''id3'' 3,
                            Settle (Inl (new_Error ''Failed to fetch'')) ''id4'' 4] first_exchange))
   \<and> length (messages (hook_run [Call_sendMessage (messages first_exchange) ''b'' ''id3'' 3,
                            Settle (Inl (new_Error ''Failed to fetch'')) ''id4'' 4] first_exchange))
       = 4"
proof -
  have len: "length (messages first_exchange) = 2"
    by (simp add: first_exchange_def sendMessage_resume_success sendMessage_begin_state
        initial_state_def)
  show ?thesis
    using C7_log_append_only
      [of "[Call_sendMessage (messages first_exchange) ''b'' ''id3'' 3,
            Settle (Inl (new_Error ''Failed to fetch'')) ''id4'' 4]" first_exchange]
    by (simp add: len)
qed

text \<open>
  C8. The part of \<open>sendMessage\<close> before the network call sets \<open>isLoading\<close>. However the
  request settles, fulfilled or rejected, and on a timeout too, \<open>isLoading\<close> is false
  when \<open>sendMessage\<close> completes, and it completes normally; a call against a backend
  either never settles or completes in this way. In the application, after
  every sequence of user actions and settlements, \<open>isLoading\<close> is true exactly when one
  request is in flight, and never more than one is.
\<close>

theorem C8_isLoading_while_in_flight:
  "isLoading (fst (sendMessage_begin cm c uid now s))
   \<and> isLoading (snd (sendMessage_resume settled uid2 now2 s')) = False
   \<and> fst (sendMessage_resume settled uid2 now2 s') = Inr ()
   \<and> (sendMessage_run cm c uid now backend uid2 now2 s = None
        \<or> (\<exists>s''. sendMessage_run cm c uid now backend uid2 now2 s = Some (Inr (), s'')
              \<and> isLoading s'' = False))
   \<and> isLoading (hook (ui_run evs initial_session)) = (in_flight (ui_run evs initial_session) = 1)
   \<and> in_flight (ui_run evs initial_session) \<le> 1"
proof -
  have resume: "isLoading (snd (sendMessage_resume x u n z)) = False
      \<and> fst (sendMessage_resume x u n z) = Inr ()" for x u n z
    by (cases x) (simp_all add: sendMessage_resume_success sendMessage_resume_failure)
  have "ui_invariant (ui_run evs initial_session)"
    by (rule ui_reachable_invariant)
  then have ui: "isLoading (hook (ui_run evs initial_session)) = (in_flight (ui_run evs initial_session) = 1)
      \<and> in_flight (ui_run evs initial_session) \<le> 1"
    by (simp add: ui_invariant_def split: if_splits)
  have run: "sendMessage_run cm c uid now backend uid2 now2 s = None
      \<or> (\<exists>s''. sendMessage_run cm c uid now backend uid2 now2 s = Some (Inr (), s'')
            \<and> isLoading s'' = False)"
  proof (cases "fst (chatAPI_sendMessage backend c (Some (history_of cm)))")
    case None
    then show ?thesis
      by (simp add: sendMessage_run_def Let_def sendMessage_begin_request)
  next
    case (Some x)
    obtain r z where rz: "sendMessage_resume x uid2 now2 (fst (sendMessage_begin cm c uid now s)) = (r, z)"
      by (cases "sendMessage_resume x uid2 now2 (fst (sendMessage_begin cm c uid now s))")
    with resume [of x uid2 now2 "fst (sendMessage_begin cm c uid now s)"]
    have "r = Inr ()" and "isLoading z = False"
      by simp_all
    with Some rz show ?thesis
      by (simp add: sendMessage_run_def Let_def sendMessage_begin_request)
  qed
  show ?thesis
    using ui run by (simp add: resume sendMessage_begin_state)
qed

text \<open>
  C9. \<open>clearChat\<close> yields an empty log and an absent error from every state and leaves
  \<open>isLoading\<close> as it was; a second \<open>clearChat\<close> changes nothing more. On a session
  whose log is empty, whatever calls and settlements led to it, \<open>clearChat\<close> changes
  nothing at all.
\<close>

theorem C9_clearChat_resets:
  assumes "messages (hook_run evs initial_state) = []"
  shows "messages (clearChat s) = [] \<and> error (clearChat s) = None
       \<and> isLoading (clearChat s) = isLoading s
       \<and> clearChat (clearChat s) = clearChat s
       \<and> clearChat (hook_run evs initial_state) = hook_run evs initial_state"
proof -
  have "error (hook_run evs initial_state) = None"
    using assms by (rule reachable_empty_log_no_error)
  with assms have "clearChat (hook_run evs initial_state) = hook_run evs initial_state"
    by (simp add: clearChat_eq)
  then show ?thesis
    by (simp add: clearChat_eq)
qed

theorem C9_witness:
  "messages (hook_run [Call_sendMessage [] ''hello'' ''id1'' 1,
                       Settle (Inl (new_Error ''Failed to fetch'')) ''id2'' 2,
                       Call_clearChat] initial_state) = []
   \<and> clearChat (hook_run [Call_sendMessage [] ''hello'' ''id1'' 1,
                       Settle (Inl (new_Error ''Failed to fetch'')) ''id2'' 2,
                       Call_clearChat] initial_state)
     = hook_run [Call_sendMessage [] ''hello'' ''id1'' 1,
                 Settle (Inl (new_Error ''Failed to fetch'')) ''id2'' 2,
                 Call_clearChat] initial_state
   \<and> hook_run [Call_sendMessage [] ''hello'' ''id1'' 1,
                 Settle (Inl (new_Error ''Failed to fetch'')) ''id2'' 2,
                 Call_clearChat] initial_state = initial_state"
proof -
  have empty: "messages (hook_run [Call_sendMessage [] ''hello'' ''id1'' 1,
                       Settle (Inl (new_Error ''Failed to fetch'')) ''id2'' 2,
                       Call_clearChat] initial_state) = []"
    by (simp add: hook_run_def clearChat_eq)
  have same: "hook_run [Call_sendMessage [] ''hello'' ''id1'' 1,
                 Settle (Inl (new_Error ''Failed to fetch'')) ''id2'' 2,
                 Call_clearChat] initial_state = initial_state"
    by (simp add: hook_run_def clearChat_eq sendMessage_resume_failure sendMessage_begin_state
        initial_state_def)
  show ?thesis
    using C9_clearChat_resets [OF empty, of initial_state] empty same
    by simp
qed

text \<open>
  C10. The part of \<open>sendMessage\<close> before the network call sets the error to absent, in
  every state. So the error a failed submission stored is absent as soon as the next
  submission has started, before its request settles, and if that request fails too
  the error is the new one. A request that succeeds leaves the error as it finds it.
\<close>

theorem C10_submit_clears_error:
  "error (fst (sendMessage_begin cm c uid now s)) = None
   \<and> error (snd (sendMessage_resume (Inl (new_Error msg1)) uid1 now1 s)) = Some msg1
   \<and> error (fst (sendMessage_begin cm c uid now
        (snd (sendMessage_resume (Inl (new_Error msg1)) uid1 now1 s)))) = None
   \<and> error (snd (sendMessage_resume (Inl (new_Error msg2)) uid2 now2
        (fst (sendMessage_begin cm c uid now
          (snd (sendMessage_resume (Inl (new_Error msg1)) uid1 now1 s)))))) = Some msg2
   \<and> error (snd (sendMessage_resume (Inr payload) uid1 now1 s)) = error s"
  by (simp add: sendMessage_begin_state sendMessage_resume_failure sendMessage_resume_success
      new_Error_def)

end
